theory Spec2Isabelle
  imports Main "HOL-Library.AList" "HOL-Library.Multiset" "HOL-Library.Word"
begin

section \<open>String primitives of the host language\<close>

text \<open>
  Strings are lists of characters. The functions below are the built-in string and array
  methods that \<^verbatim>\<open>epubParser.ts\<close> calls, with the behaviour the language
  standard gives them.
\<close>

text \<open>\<^verbatim>\<open>s.startsWith(p)\<close>\<close>

definition startsWith :: "string \<Rightarrow> string \<Rightarrow> bool" where
  "startsWith s p = (take (length p) s = p)"

text \<open>\<^verbatim>\<open>s.split(c)\<close> for a one-character separator: never the empty array.\<close>

fun split :: "char \<Rightarrow> string \<Rightarrow> string list" where
  "split c [] = [[]]"
| "split c (x # xs) =
     (if x = c then [] # split c xs
      else (case split c xs of
              [] \<Rightarrow> [[x]]
            | s # ss \<Rightarrow> (x # s) # ss))"

text \<open>\<^verbatim>\<open>parts.join(sep)\<close>\<close>

fun join :: "string \<Rightarrow> string list \<Rightarrow> string" where
  "join sep [] = []"
| "join sep [p] = p"
| "join sep (p # q # ps) = p @ sep @ join sep (q # ps)"

text \<open>\<^verbatim>\<open>arr.pop()\<close>, for its effect on the array (nothing happens on the empty array).\<close>

definition pop :: "'a list \<Rightarrow> 'a list" where
  "pop xs = butlast xs"

section \<open>The path resolver\<close>

text \<open>
  The body of the \<^verbatim>\<open>for (const part of parts)\<close> loop of
  \<^verbatim>\<open>resolveRelativePath\<close>: one step on the stack \<open>basePathParts\<close>.
\<close>

definition process_part :: "string list \<Rightarrow> string \<Rightarrow> string list" where
  "process_part basePathParts part =
     (if part = ''..'' then
        (if length basePathParts > 0 then pop basePathParts else basePathParts)
      else if part \<noteq> ''.'' \<and> length part > 0 then basePathParts @ [part]
      else basePathParts)"

fun process_parts :: "string list \<Rightarrow> string list \<Rightarrow> string list" where
  "process_parts basePathParts [] = basePathParts"
| "process_parts basePathParts (part # parts) =
     process_parts (process_part basePathParts part) parts"

definition resolveRelativePath :: "string \<Rightarrow> string \<Rightarrow> string" where
  "resolveRelativePath relativePath basePath =
     (if startsWith relativePath ''/'' then drop 1 relativePath
      else if basePath = [] then relativePath
      else
        let parts = split CHR ''/'' relativePath;
            basePathParts = filter (\<lambda>p. length p > 0) (split CHR ''/'' basePath);
            basePathParts =
              (if length basePathParts > 0 then pop basePathParts else basePathParts)
        in join ''/'' (process_parts basePathParts parts))"

text \<open>The segments of a path, and what the specification calls a normalized path.\<close>

definition segments :: "string \<Rightarrow> string list" where
  "segments p = split CHR ''/'' p"

definition normalized :: "string \<Rightarrow> bool" where
  "normalized p \<longleftrightarrow>
     ''.'' \<notin> set (segments p) \<and> ''..'' \<notin> set (segments p) \<and> \<not> startsWith p ''/''"

section \<open>More string primitives\<close>

text \<open>
  A value of type \<open>string option\<close> stands for a nullable string; \<open>truthy\<close> is the
  test that \<^verbatim>\<open>if (x)\<close>, \<^verbatim>\<open>x && y\<close> and \<^verbatim>\<open>x || d\<close> make on it:
  neither absent nor the empty string.
\<close>

fun truthy :: "string option \<Rightarrow> bool" where
  "truthy None = False"
| "truthy (Some s) = (s \<noteq> [])"

text \<open>\<^verbatim>\<open>s.lastIndexOf(c)\<close>: the last position of \<open>c\<close>, or \<open>-1\<close>.\<close>

definition lastIndexOf :: "string \<Rightarrow> char \<Rightarrow> int" where
  "lastIndexOf s c =
     (case filter (\<lambda>i. s ! i = c) (rev [0..<length s]) of
        [] \<Rightarrow> - 1
      | i # _ \<Rightarrow> int i)"

text \<open>\<^verbatim>\<open>s.substring(0, n)\<close> for \<open>n \<ge> 0\<close>.\<close>

definition substring0 :: "string \<Rightarrow> int \<Rightarrow> string" where
  "substring0 s n = take (nat n) s"

text \<open>\<^verbatim>\<open>s.includes(sub)\<close>\<close>

fun includesStr :: "string \<Rightarrow> string \<Rightarrow> bool" where
  "includesStr [] sub = (sub = [])"
| "includesStr (x # xs) sub = (startsWith (x # xs) sub \<or> includesStr xs sub)"

text \<open>
  \<^verbatim>\<open>s.toLowerCase()\<close> on the ASCII letters; characters outside ASCII are left as they
  are (the model's characters are bytes).
\<close>

definition lower_char :: "char \<Rightarrow> char" where
  "lower_char c =
     (let n = (of_char c :: nat) in if 65 \<le> n \<and> n \<le> 90 then char_of (n + 32) else c)"

definition toLowerCase :: "string \<Rightarrow> string" where
  "toLowerCase s = map lower_char s"

section \<open>Documents\<close>

text \<open>
  The markup reader (\<^verbatim>\<open>DOMParser\<close>) is outside the repository; what the parser sees
  of its result is a tree of element and text nodes. An element carries its local name,
  its attributes in document order and its child nodes. A handle on an element, as the
  selector queries return it, is the node together with the names of its ancestors
  (nearest first): selectors with a descendant combinator are matched against the whole
  tree, not only below the element the query starts from.
\<close>

datatype node = Element string "(string \<times> string) list" "node list" | Text string

datatype document = Document "node list"

type_synonym element = "string list \<times> node"

fun getAttribute :: "element \<Rightarrow> string \<Rightarrow> string option" where
  "getAttribute (anc, Element t as cs) name = map_of as name"
| "getAttribute (anc, Text s) name = None"

text \<open>\<^verbatim>\<open>node.textContent\<close>: the text of all text nodes below, in document order.\<close>

fun text_of :: "node \<Rightarrow> string" where
  "text_of (Text s) = s"
| "text_of (Element t as cs) = concat (map text_of cs)"

definition textContent :: "element \<Rightarrow> string" where
  "textContent e = text_of (snd e)"

text \<open>All nodes below a list of sibling nodes, in document order, each with its ancestors.\<close>

fun descendants :: "string list \<Rightarrow> node list \<Rightarrow> element list" where
  "descendants anc [] = []"
| "descendants anc (Text s # ns) = (anc, Text s) # descendants anc ns"
| "descendants anc (Element t as cs # ns) =
     (anc, Element t as cs) # descendants (t # anc) cs @ descendants anc ns"

fun childNodes :: "element \<Rightarrow> element list" where
  "childNodes (anc, Element t as cs) = map (\<lambda>c. (t # anc, c)) cs"
| "childNodes (anc, Text s) = []"

fun below :: "element \<Rightarrow> element list" where
  "below (anc, Element t as cs) = descendants (t # anc) cs"
| "below (anc, Text s) = []"

text \<open>
  The selectors the parser uses: a type selector \<^verbatim>\<open>name\<close>, a type selector with an
  attribute test \<^verbatim>\<open>name[attr="value"]\<close>, a descendant combinator whose left side is a
  type selector \<^verbatim>\<open>outer inner\<close>, and a selector list \<^verbatim>\<open>a, b\<close>.
\<close>

datatype selector =
    Type string
  | TypeAttr string string string
  | Descendant string selector
  | Group selector selector

fun matches :: "selector \<Rightarrow> element \<Rightarrow> bool" where
  "matches sel (anc, Text s) = False"
| "matches (Type name) (anc, Element t as cs) = (t = name)"
| "matches (TypeAttr name a v) (anc, Element t as cs) = (t = name \<and> map_of as a = Some v)"
| "matches (Descendant outer sel) (anc, Element t as cs) =
     (outer \<in> set anc \<and> matches sel (anc, Element t as cs))"
| "matches (Group s1 s2) (anc, Element t as cs) =
     (matches s1 (anc, Element t as cs) \<or> matches s2 (anc, Element t as cs))"

text \<open>\<^verbatim>\<open>element.querySelectorAll(sel)\<close> and \<^verbatim>\<open>element.querySelector(sel)\<close>\<close>

definition querySelectorAll :: "element \<Rightarrow> selector \<Rightarrow> element list" where
  "querySelectorAll e sel = filter (matches sel) (below e)"

definition querySelector :: "element \<Rightarrow> selector \<Rightarrow> element option" where
  "querySelector e sel = (case querySelectorAll e sel of [] \<Rightarrow> None | x # _ \<Rightarrow> Some x)"

text \<open>The same two queries on a document: the root element is a candidate too.\<close>

fun doc_querySelectorAll :: "document \<Rightarrow> selector \<Rightarrow> element list" where
  "doc_querySelectorAll (Document ns) sel = filter (matches sel) (descendants [] ns)"

definition doc_querySelector :: "document \<Rightarrow> selector \<Rightarrow> element option" where
  "doc_querySelector d sel =
     (case doc_querySelectorAll d sel of [] \<Rightarrow> None | x # _ \<Rightarrow> Some x)"

text \<open>\<^verbatim>\<open>element.querySelectorAll(':scope > name')\<close>: the child elements called \<open>name\<close>.\<close>

definition scope_children :: "element \<Rightarrow> string \<Rightarrow> element list" where
  "scope_children e name = filter (matches (Type name)) (childNodes e)"

section \<open>The manifest\<close>

record EpubManifestItem =
  item_id :: string
  item_href :: string
  item_mediaType :: string

text \<open>
  \<^verbatim>\<open>Record<string, EpubManifestItem>\<close>: an object used as a dictionary. Its entries are
  kept in the order of their creation; an assignment to an existing key changes the value
  in place. (An item with the id \<^verbatim>\<open>__proto__\<close> is kept as an entry as well. In the
  program the assignment makes it the prototype of the object instead: a lookup finds it
  in the same way, see \<open>manifest_get\<close> below, but \<^verbatim>\<open>Object.values\<close> does not list
  it.)
\<close>

type_synonym manifest = "(string \<times> EpubManifestItem) list"

text \<open>The body of the \<^verbatim>\<open>forEach\<close> of \<^verbatim>\<open>parseManifest\<close>.\<close>

definition manifest_step :: "string \<Rightarrow> manifest \<Rightarrow> element \<Rightarrow> manifest" where
  "manifest_step basePath manifestItems item =
     (let id = getAttribute item ''id'';
          href = getAttribute item ''href'';
          mediaType = getAttribute item ''media-type''
      in if truthy id \<and> truthy href \<and> truthy mediaType then
           let fullHref = resolveRelativePath (the href) basePath
           in AList.update (the id)
                \<lparr>item_id = the id, item_href = fullHref, item_mediaType = the mediaType\<rparr>
                manifestItems
         else manifestItems)"

definition parseManifest :: "document \<Rightarrow> string \<Rightarrow> manifest" where
  "parseManifest opfDoc basePath =
     (let items = doc_querySelectorAll opfDoc (Descendant ''manifest'' (Type ''item''))
      in foldl (manifest_step basePath) [] items)"

section \<open>Numbers, \<^verbatim>\<open>parseInt\<close> and \<^verbatim>\<open>Array.prototype.sort\<close>\<close>

text \<open>
  A number of the host language, as far as the parser can produce one: an integer or
  \<^verbatim>\<open>NaN\<close>. (A number is a double; the integers are exact up to \<open>2^53\<close> in
  magnitude, and the rounding of longer numerals is not part of this model.)
\<close>

datatype number = Num int | NaN

fun num_sub :: "number \<Rightarrow> number \<Rightarrow> number" where
  "num_sub (Num a) (Num b) = Num (a - b)"
| "num_sub _ _ = NaN"

text \<open>The comparison \<^verbatim>\<open>a <= b\<close> on numbers: false as soon as \<^verbatim>\<open>NaN\<close> is involved.\<close>

fun num_le :: "number \<Rightarrow> number \<Rightarrow> bool" where
  "num_le (Num a) (Num b) = (a \<le> b)"
| "num_le _ _ = False"

definition is_whitespace :: "char \<Rightarrow> bool" where
  "is_whitespace c = ((of_char c :: nat) \<in> {9, 10, 11, 12, 13, 32})"

definition is_digit :: "char \<Rightarrow> bool" where
  "is_digit c = (48 \<le> (of_char c :: nat) \<and> (of_char c :: nat) \<le> 57)"

definition digit_value :: "char \<Rightarrow> int" where
  "digit_value c = int (of_char c) - 48"

definition digits_value :: "string \<Rightarrow> int" where
  "digits_value ds = foldl (\<lambda>a c. 10 * a + digit_value c) 0 ds"

text \<open>
  \<^verbatim>\<open>parseInt(s, 10)\<close>: leading white space is skipped (of the white space of the
  language, the ASCII characters), one sign is read, then the longest run of decimal
  digits; no digit at all gives \<^verbatim>\<open>NaN\<close>.
\<close>

definition parseInt :: "string \<Rightarrow> number" where
  "parseInt s =
     (let S = dropWhile is_whitespace s;
          sign = (if S \<noteq> [] \<and> hd S = CHR ''-'' then - 1 else 1);
          S = (if S \<noteq> [] \<and> (hd S = CHR ''+'' \<or> hd S = CHR ''-'') then tl S else S);
          Z = takeWhile is_digit S
      in if Z = [] then NaN else Num (sign * digits_value Z))"

text \<open>
  \<^verbatim>\<open>arr.sort(comparefn)\<close>. The standard turns a \<^verbatim>\<open>NaN\<close> returned by the comparison
  function into \<open>0\<close> (\<open>sort_compare\<close>), and when the comparison is consistent after that
  it fixes the result: the stable ascending arrangement, which insertion from the right
  computes. (For an inconsistent comparison the standard leaves the arrangement to the
  engine; no statement below evaluates the sort on such an input.)
\<close>

fun sort_compare :: "('a \<Rightarrow> 'a \<Rightarrow> number) \<Rightarrow> 'a \<Rightarrow> 'a \<Rightarrow> int" where
  "sort_compare comparefn x y = (case comparefn x y of NaN \<Rightarrow> 0 | Num v \<Rightarrow> v)"

fun insert_by :: "('a \<Rightarrow> 'a \<Rightarrow> number) \<Rightarrow> 'a \<Rightarrow> 'a list \<Rightarrow> 'a list" where
  "insert_by comparefn x [] = [x]"
| "insert_by comparefn x (y # ys) =
     (if sort_compare comparefn x y \<le> 0 then x # y # ys
      else y # insert_by comparefn x ys)"

definition js_sort :: "('a \<Rightarrow> 'a \<Rightarrow> number) \<Rightarrow> 'a list \<Rightarrow> 'a list" where
  "js_sort comparefn xs = foldr (insert_by comparefn) xs []"

section \<open>The navigation stage\<close>

datatype EpubNavPoint =
  EpubNavPoint (nav_id: string) (nav_label: string) (nav_href: string)
    (nav_order: number) (nav_children: "EpubNavPoint list")

text \<open>
  \<^verbatim>\<open>forEach(el => { const p = f(el); if (p) out.push(p); })\<close>: the results that are
  not null, in the order of the elements.
\<close>

definition push_results :: "('a \<Rightarrow> 'b option) \<Rightarrow> 'a list \<Rightarrow> 'b list" where
  "push_results f els = concat (map (\<lambda>el. case f el of None \<Rightarrow> [] | Some p \<Rightarrow> [p]) els)"

text \<open>
  Two facts for the termination of \<open>parseNavPoint\<close>, which calls itself on the child
  elements only.
\<close>

lemma push_results_cong [fundef_cong]:
  "els = els' \<Longrightarrow> (\<And>el. el \<in> set els' \<Longrightarrow> f el = g el) \<Longrightarrow>
     push_results f els = push_results g els'"
  by (simp add: push_results_def cong: map_cong)

lemma scope_children_smaller:
  "el \<in> set (scope_children e name) \<Longrightarrow> size (snd el) < size (snd e)"
proof (cases e)
  case (Pair anc n)
  assume el: "el \<in> set (scope_children e name)"
  show ?thesis
  proof (cases n)
    case (Text s)
    with Pair el show ?thesis by (simp add: scope_children_def)
  next
    case (Element t as cs)
    with Pair el obtain c where "c \<in> set cs" "el = (t # anc, c)"
      by (auto simp: scope_children_def)
    then show ?thesis using Pair Element
      by (auto simp: less_Suc_eq_le size_list_estimation')
  qed
qed

function parseNavPoint :: "element \<Rightarrow> EpubNavPoint option" where
  "parseNavPoint (anc, n) =
     (let element = (anc, n);
          id = getAttribute element ''id'';
          playOrder = getAttribute element ''playOrder'';
          labelEl = querySelector element (Descendant ''navLabel'' (Type ''text''));
          contentEl = querySelector element (Type ''content'')
      in if \<not> truthy id \<or> \<not> truthy (map_option textContent labelEl) \<or> contentEl = None
         then None
         else
           let label = textContent (the labelEl);
               href = (let src = getAttribute (the contentEl) ''src''
                       in if truthy src then the src else '''');
               order = (if truthy playOrder then parseInt (the playOrder) else Num 0);
               children = push_results parseNavPoint (scope_children (anc, n) ''navPoint'')
           in Some (EpubNavPoint (the id) label href order children))"
  by pat_completeness auto
termination
  by (relation "measure (\<lambda>e. size (snd e))") (auto dest: scope_children_smaller)

declare parseNavPoint.simps [simp del]

definition parseNavPoints :: "document \<Rightarrow> EpubNavPoint list" where
  "parseNavPoints ncxDoc =
     (let navMap = doc_querySelector ncxDoc (Type ''navMap'');
          navPoints =
            (case navMap of
               None \<Rightarrow> []
             | Some navMapEl \<Rightarrow>
                 push_results parseNavPoint (querySelectorAll navMapEl (Type ''navPoint'')))
      in js_sort (\<lambda>a b. num_sub (nav_order a) (nav_order b)) navPoints)"

section \<open>Iterating over the manifest\<close>

text \<open>
  \<^verbatim>\<open>Object.values(manifest)\<close> lists the values in the property order of the language:
  first the keys that are array indices (a canonical decimal numeral below \<open>2^32 - 1\<close>),
  in ascending numeric order, then all other keys in the order of their creation.
\<close>

definition is_array_index :: "string \<Rightarrow> bool" where
  "is_array_index k =
     (k \<noteq> [] \<and> list_all is_digit k \<and> (k = ''0'' \<or> hd k \<noteq> CHR ''0'') \<and>
      digits_value k < 2 ^ 32 - 1)"

definition object_entries :: "(string \<times> 'v) list \<Rightarrow> (string \<times> 'v) list" where
  "object_entries obj =
     sort_key (\<lambda>kv. digits_value (fst kv)) (filter (\<lambda>kv. is_array_index (fst kv)) obj) @
     filter (\<lambda>kv. \<not> is_array_index (fst kv)) obj"

definition object_values :: "(string \<times> 'v) list \<Rightarrow> 'v list" where
  "object_values obj = map snd (object_entries obj)"

section \<open>Cover resolution\<close>

definition isImageType :: "string \<Rightarrow> bool" where
  "isImageType mediaType = startsWith mediaType ''image/''"

text \<open>
  \<^verbatim>\<open>manifest[key]\<close>. The manifest is a plain object, so the lookup finds an own key,
  and otherwise what the object inherits: the methods and the accessor of
  \<^verbatim>\<open>Object.prototype\<close>, and, when an item with the id \<^verbatim>\<open>__proto__\<close> has become the
  prototype, the three fields of that item. The result is an item, a string, or an
  inherited function or object; \<open>None\<close> is \<^verbatim>\<open>undefined\<close>.
\<close>

datatype js_value = Item EpubManifestItem | Str string | Inherited

definition object_prototype_names :: "string list" where
  "object_prototype_names =
     [''constructor'', ''__defineGetter__'', ''__defineSetter__'', ''hasOwnProperty'',
      ''__lookupGetter__'', ''__lookupSetter__'', ''isPrototypeOf'',
      ''propertyIsEnumerable'', ''toString'', ''valueOf'', ''__proto__'',
      ''toLocaleString'']"

definition manifest_get :: "manifest \<Rightarrow> string \<Rightarrow> js_value option" where
  "manifest_get m key =
     (case map_of m key of
        Some it \<Rightarrow> Some (Item it)
      | None \<Rightarrow>
          (case map_of m ''__proto__'' of
             Some p \<Rightarrow>
               if key = ''id'' then Some (Str (item_id p))
               else if key = ''href'' then Some (Str (item_href p))
               else if key = ''mediaType'' then Some (Str (item_mediaType p))
               else if key \<in> set object_prototype_names then Some Inherited
               else None
           | None \<Rightarrow> if key \<in> set object_prototype_names then Some Inherited else None))"

text \<open>The test \<^verbatim>\<open>if (v)\<close> on such a value, and \<^verbatim>\<open>v.href\<close> on one that passed it.\<close>

fun js_truthy :: "js_value option \<Rightarrow> bool" where
  "js_truthy None = False"
| "js_truthy (Some (Str s)) = (s \<noteq> [])"
| "js_truthy (Some (Item it)) = True"
| "js_truthy (Some Inherited) = True"

fun js_href :: "js_value option \<Rightarrow> string option" where
  "js_href (Some (Item it)) = Some (item_href it)"
| "js_href _ = None"

text \<open>
  Strategy 2: the loop over \<^verbatim>\<open>['cover', 'cover-image']\<close>. Neither of the two ids is an
  inherited name, so the lookup finds an item or nothing (lemma
  \<open>manifest_get_literal_ids\<close> below); the last case is never taken for them.
\<close>

fun cover_by_ids :: "manifest \<Rightarrow> string list \<Rightarrow> string option" where
  "cover_by_ids m [] = None"
| "cover_by_ids m (i # ids) =
     (case manifest_get m i of
        Some (Item it) \<Rightarrow> if isImageType (item_mediaType it) then Some (item_href it)
                          else cover_by_ids m ids
      | _ \<Rightarrow> cover_by_ids m ids)"

text \<open>
  Strategy 3: the loop over the item elements with \<^verbatim>\<open>properties="cover-image"\<close>. The
  result is \<open>None\<close> when the loop ends without a \<^verbatim>\<open>return\<close>, and \<open>Some r\<close> when
  it returns \<open>r\<close>, which is \<^verbatim>\<open>undefined\<close> when the value found has no href.
\<close>

fun cover_by_properties :: "manifest \<Rightarrow> element list \<Rightarrow> string option option" where
  "cover_by_properties m [] = None"
| "cover_by_properties m (item # items) =
     (let id = getAttribute item ''id''
      in if truthy id \<and> js_truthy (manifest_get m (the id))
         then Some (js_href (manifest_get m (the id)))
         else cover_by_properties m items)"

text \<open>Strategy 4: the loop over \<^verbatim>\<open>Object.values(manifest)\<close>.\<close>

fun cover_by_name :: "EpubManifestItem list \<Rightarrow> string option" where
  "cover_by_name [] = None"
| "cover_by_name (item # items) =
     (if isImageType (item_mediaType item) \<and>
         (includesStr (toLowerCase (item_id item)) ''cover'' \<or>
          includesStr (toLowerCase (item_href item)) ''cover'')
      then Some (item_href item)
      else cover_by_name items)"

definition findCoverPath :: "document \<Rightarrow> manifest \<Rightarrow> string option" where
  "findCoverPath opfDoc m =
     (let coverMeta = doc_querySelector opfDoc (TypeAttr ''meta'' ''name'' ''cover'');
          coverId = (case coverMeta of None \<Rightarrow> None | Some e \<Rightarrow> getAttribute e ''content'')
      in if coverMeta \<noteq> None \<and> truthy coverId \<and> js_truthy (manifest_get m (the coverId))
         then js_href (manifest_get m (the coverId))
         else
           (case cover_by_ids m [''cover'', ''cover-image''] of
              Some h \<Rightarrow> Some h
            | None \<Rightarrow>
               (let items = doc_querySelectorAll opfDoc
                              (Descendant ''manifest''
                                 (TypeAttr ''item'' ''properties'' ''cover-image''))
                in case cover_by_properties m items of
                     Some r \<Rightarrow> r
                   | None \<Rightarrow> cover_by_name (object_values m))))"

text \<open>
  The four strategies as the specification words them, each on its own, and the first
  success in the order given.
\<close>

definition strategy_meta :: "document \<Rightarrow> manifest \<Rightarrow> string option" where
  "strategy_meta opfDoc m =
     (case doc_querySelector opfDoc (TypeAttr ''meta'' ''name'' ''cover'') of
        None \<Rightarrow> None
      | Some e \<Rightarrow>
          (case getAttribute e ''content'' of
             None \<Rightarrow> None
           | Some c \<Rightarrow> if c = [] then None else map_option item_href (map_of m c)))"

definition strategy_literal_id :: "document \<Rightarrow> manifest \<Rightarrow> string option" where
  "strategy_literal_id opfDoc m =
     map_option item_href
       (List.find (\<lambda>it. isImageType (item_mediaType it))
          (List.map_filter (map_of m) [''cover'', ''cover-image'']))"

definition strategy_properties :: "document \<Rightarrow> manifest \<Rightarrow> string option" where
  "strategy_properties opfDoc m =
     map_option item_href
       (case List.map_filter
               (\<lambda>e. case getAttribute e ''id'' of None \<Rightarrow> None | Some i \<Rightarrow>
                      if i = [] then None else map_of m i)
               (doc_querySelectorAll opfDoc
                  (Descendant ''manifest'' (TypeAttr ''item'' ''properties'' ''cover-image'')))
        of [] \<Rightarrow> None | it # _ \<Rightarrow> Some it)"

definition strategy_name :: "document \<Rightarrow> manifest \<Rightarrow> string option" where
  "strategy_name opfDoc m =
     map_option item_href
       (List.find
          (\<lambda>it. isImageType (item_mediaType it) \<and>
                (includesStr (toLowerCase (item_id it)) ''cover'' \<or>
                 includesStr (toLowerCase (item_href it)) ''cover''))
          (object_values m))"

fun first_success :: "('a \<Rightarrow> 'b \<Rightarrow> 'c option) list \<Rightarrow> 'a \<Rightarrow> 'b \<Rightarrow> 'c option" where
  "first_success [] d m = None"
| "first_success (s # ss) d m =
     (case s d m of Some r \<Rightarrow> Some r | None \<Rightarrow> first_success ss d m)"

section \<open>Metadata and spine\<close>

record EpubMetadata =
  md_title :: "string option"
  md_creator :: "string option"
  md_publisher :: "string option"
  md_language :: "string option"
  md_identifier :: "string option"
  md_description :: "string option"
  md_published :: "string option"
  md_modified :: "string option"
  md_rights :: "string option"

record EpubSpine =
  spine_items :: "string list"
  spine_toc :: string

text \<open>
  \<^verbatim>\<open>metadataEl.querySelector(sel)\<close> followed by the test
  \<^verbatim>\<open>if (element?.textContent)\<close>: the text of the first match when it is not empty.
\<close>

definition text_of_first :: "element \<Rightarrow> selector \<Rightarrow> string option" where
  "text_of_first metadataEl sel =
     (case querySelector metadataEl sel of
        None \<Rightarrow> None
      | Some e \<Rightarrow> if textContent e \<noteq> [] then Some (textContent e) else None)"

text \<open>The selector \<^verbatim>\<open>dc\\:el, *|el\<close>.\<close>

definition dc_selector :: "string \<Rightarrow> selector" where
  "dc_selector el = Group (Type (''dc:'' @ el)) (Type el)"

definition parseMetadata :: "document \<Rightarrow> EpubMetadata" where
  "parseMetadata opfDoc =
     (case doc_querySelector opfDoc (Type ''metadata'') of
        None \<Rightarrow>
          \<lparr>md_title = None, md_creator = None, md_publisher = None, md_language = None,
           md_identifier = None, md_description = None, md_published = None, md_modified = None,
           md_rights = None\<rparr>
      | Some metadataEl \<Rightarrow>
          \<lparr>md_title = text_of_first metadataEl (dc_selector ''title''),
           md_creator = text_of_first metadataEl (dc_selector ''creator''),
           md_publisher = text_of_first metadataEl (dc_selector ''publisher''),
           md_language = text_of_first metadataEl (dc_selector ''language''),
           md_identifier = text_of_first metadataEl (dc_selector ''identifier''),
           md_description = text_of_first metadataEl (dc_selector ''description''),
           md_published = text_of_first metadataEl (dc_selector ''date''),
           md_modified =
             text_of_first metadataEl (TypeAttr ''meta'' ''property'' ''dcterms:modified''),
           md_rights = text_of_first metadataEl (dc_selector ''rights'')\<rparr>)"

definition parseSpine :: "document \<Rightarrow> EpubSpine" where
  "parseSpine opfDoc =
     (case doc_querySelector opfDoc (Type ''spine'') of
        None \<Rightarrow> \<lparr>spine_items = [], spine_toc = ''''\<rparr>
      | Some spineEl \<Rightarrow>
          (let tocAttr = getAttribute spineEl ''toc'';
               itemRefs = querySelectorAll spineEl (Type ''itemref'')
           in \<lparr>spine_items = push_results
                          (\<lambda>item. let idref = getAttribute item ''idref''
                                  in if truthy idref then idref else None)
                          itemRefs,
               spine_toc = (if truthy tocAttr then the tocAttr else '''')\<rparr>))"

section \<open>Rewriting the markup\<close>

text \<open>\<^verbatim>\<open>el.setAttribute(name, value)\<close> on the attribute list.\<close>

definition setAttribute :: "(string \<times> string) list \<Rightarrow> string \<Rightarrow> string \<Rightarrow> (string \<times> string) list" where
  "setAttribute as name v = AList.update name v as"

text \<open>
  \<^verbatim>\<open>el.classList.add(token)\<close>: the class attribute is read as an ordered set of
  tokens separated by white space, the token is appended when it is not a member, and
  the set is written back with single spaces.
\<close>

definition is_ascii_whitespace :: "char \<Rightarrow> bool" where
  "is_ascii_whitespace c = ((of_char c :: nat) \<in> {9, 10, 12, 13, 32})"

fun split_tokens :: "string \<Rightarrow> string list" where
  "split_tokens [] = []"
| "split_tokens (c # cs) =
     (if is_ascii_whitespace c then split_tokens cs
      else (case split_tokens cs of
              [] \<Rightarrow> [[c]]
            | t # ts \<Rightarrow>
                if cs \<noteq> [] \<and> is_ascii_whitespace (hd cs) then [c] # t # ts
                else (c # t) # ts))"

definition ordered_set :: "string list \<Rightarrow> string list" where
  "ordered_set ts = rev (remdups (rev ts))"

definition classList_add :: "(string \<times> string) list \<Rightarrow> string \<Rightarrow> (string \<times> string) list" where
  "classList_add as token =
     (let tokens = ordered_set
                     (case map_of as ''class'' of None \<Rightarrow> [] | Some v \<Rightarrow> split_tokens v);
          tokens = (if token \<in> set tokens then tokens else tokens @ [token])
      in setAttribute as ''class'' (join '' '' tokens))"

text \<open>The two \<^verbatim>\<open>forEach\<close> passes of \<^verbatim>\<open>processHtml\<close>, each over the whole tree.\<close>

fun mark_images :: "node \<Rightarrow> node" where
  "mark_images (Text s) = Text s"
| "mark_images (Element t as cs) =
     (let src = map_of as ''src''
      in Element t
           (if t = ''img'' \<and> truthy src \<and> \<not> startsWith (the src) ''http''
            then classList_add (setAttribute as ''data-original-src'' (the src)) ''epub-image''
            else as)
           (map mark_images cs))"

fun mark_links :: "node \<Rightarrow> node" where
  "mark_links (Text s) = Text s"
| "mark_links (Element t as cs) =
     (let href = map_of as ''href''
      in Element t
           (if t = ''link'' \<and> map_of as ''rel'' = Some ''stylesheet'' \<and> truthy href \<and>
               \<not> startsWith (the href) ''http''
            then setAttribute as ''data-original-href'' (the href)
            else as)
           (map mark_links cs))"

fun map_document :: "(node \<Rightarrow> node) \<Rightarrow> document \<Rightarrow> document" where
  "map_document f (Document ns) = Document (map f ns)"

section \<open>The archive and the other collaborators\<close>

type_synonym uint8array = "8 word list"

text \<open>A thrown \<^verbatim>\<open>Error\<close>, with its message.\<close>

datatype error = Error string

text \<open>
  An entry of the archive either decompresses to its bytes or makes
  \<^verbatim>\<open>entry.async(...)\<close> reject with an error. \<^verbatim>\<open>zip.file(path)\<close> is the lookup
  of an entry by its exact path.
\<close>

datatype zip_entry = Stored uint8array | Damaged string

type_synonym zip = "string \<Rightarrow> zip_entry option"

text \<open>
  The collaborators of the parser that are not code of the repository: the archive
  reader (\<^verbatim>\<open>JSZip.loadAsync\<close> and the decoding behind \<^verbatim>\<open>async('string')\<close>), the
  markup reader behind \<^verbatim>\<open>parseXml\<close> and the serializer. They are parameters.
\<close>

record collaborators =
  loadAsync :: "uint8array \<Rightarrow> error + zip"
  utf8decode :: "uint8array \<Rightarrow> string"
  parseXml :: "string \<Rightarrow> document"
  serializeToString :: "document \<Rightarrow> string"

text \<open>\<^verbatim>\<open>await p\<close> inside an async function: a rejection leaves the function.\<close>

fun await :: "error + 'a \<Rightarrow> ('a \<Rightarrow> error + 'b) \<Rightarrow> error + 'b" where
  "await (Inl e) k = Inl e"
| "await (Inr v) k = k v"

text \<open>
  \<^verbatim>\<open>zip.file(path)?.async('string')\<close> and \<^verbatim>\<open>zip.file(path)?.async('uint8array')\<close>:
  undefined when there is no entry, the content, or a rejection.
\<close>

definition read_string :: "collaborators \<Rightarrow> zip \<Rightarrow> string \<Rightarrow> error + string option" where
  "read_string env z path =
     (case z path of
        None \<Rightarrow> Inr None
      | Some (Stored bytes) \<Rightarrow> Inr (Some (utf8decode env bytes))
      | Some (Damaged msg) \<Rightarrow> Inl (Error msg))"

definition read_uint8array :: "zip \<Rightarrow> string \<Rightarrow> error + uint8array option" where
  "read_uint8array z path =
     (case z path of
        None \<Rightarrow> Inr None
      | Some (Stored bytes) \<Rightarrow> Inr (Some bytes)
      | Some (Damaged msg) \<Rightarrow> Inl (Error msg))"

definition processHtml :: "collaborators \<Rightarrow> string \<Rightarrow> string \<Rightarrow> string \<Rightarrow> manifest \<Rightarrow> string" where
  "processHtml env html htmlPath basePath m =
     (let htmlDir = substring0 htmlPath (lastIndexOf htmlPath CHR ''/'' + 1);
          doc = parseXml env html;
          doc = map_document mark_images doc;
          doc = map_document mark_links doc
      in serializeToString env doc)"

section \<open>The top-level parse\<close>

record EpubContent =
  epub_metadata :: EpubMetadata
  epub_spine :: EpubSpine
  epub_manifest :: manifest
  epub_navPoints :: "EpubNavPoint list"
  epub_coverPath :: "string option"
  epub_coverData :: "uint8array option"
  epub_content :: "string \<rightharpoonup> string"
  epub_resources :: "string \<rightharpoonup> uint8array"
  epub_basePath :: string

text \<open>
  \<^verbatim>\<open>parseEpub\<close> up to the declaration of the two empty maps \<^verbatim>\<open>content\<close> and
  \<^verbatim>\<open>resources\<close>: every \<^verbatim>\<open>throw\<close> and every \<^verbatim>\<open>await\<close> outside a
  \<^verbatim>\<open>try\<close> block is here.
\<close>

definition parseEpub_stages :: "collaborators \<Rightarrow> uint8array \<Rightarrow> error + (zip \<times> EpubContent)" where
  "parseEpub_stages env data =
     await (loadAsync env data) (\<lambda>z.
     await (read_string env z ''META-INF/container.xml'') (\<lambda>containerXml.
       if \<not> truthy containerXml then Inl (Error ''Invalid EPUB: Missing container.xml'')
       else
         let containerDoc = parseXml env (the containerXml);
             rootfilePath =
               (case doc_querySelector containerDoc (Type ''rootfile'') of
                  None \<Rightarrow> None
                | Some e \<Rightarrow> getAttribute e ''full-path'')
         in if \<not> truthy rootfilePath
            then Inl (Error ''Invalid EPUB: Unable to find rootfile path'')
            else
     await (read_string env z (the rootfilePath)) (\<lambda>opfContent.
       if \<not> truthy opfContent
       then Inl (Error (''Invalid EPUB: Missing OPF file at '' @ the rootfilePath))
       else
         let opfDoc = parseXml env (the opfContent);
             basePath = substring0 (the rootfilePath)
                          (lastIndexOf (the rootfilePath) CHR ''/'' + 1);
             metadata = parseMetadata opfDoc;
             m = parseManifest opfDoc basePath;
             spine = parseSpine opfDoc;
             tocHref = js_href (manifest_get m (spine_toc spine))
         in
     await (if truthy tocHref
            then await (read_string env z (the tocHref)) (\<lambda>tocContent.
                   Inr (if truthy tocContent
                        then parseNavPoints (parseXml env (the tocContent))
                        else []))
            else Inr []) (\<lambda>navPoints.
         let coverPath = findCoverPath opfDoc m
         in
     await (if truthy coverPath then read_uint8array z (the coverPath) else Inr None)
       (\<lambda>coverData.
         Inr (z,
              \<lparr>epub_metadata = metadata, epub_spine = spine, epub_manifest = m,
               epub_navPoints = navPoints, epub_coverPath = coverPath,
               epub_coverData = coverData, epub_content = Map.empty,
               epub_resources = Map.empty, epub_basePath = basePath\<rparr>))))))"

text \<open>
  What \<^verbatim>\<open>console.error(message, e)\<close> has written so far. It is the only state
  outside its own variables that the parse touches.
\<close>

type_synonym console = "(string \<times> error) list"

text \<open>The body of the first loop over \<^verbatim>\<open>Object.values(manifest)\<close>.\<close>

definition resource_step ::
  "zip \<Rightarrow> (string \<rightharpoonup> uint8array) \<times> console \<Rightarrow> EpubManifestItem \<Rightarrow>
     (string \<rightharpoonup> uint8array) \<times> console" where
  "resource_step z st item =
     (let (resources, log) = st
      in if startsWith (item_mediaType item) ''image/'' then
           (case read_uint8array z (item_href item) of
              Inl e \<Rightarrow>
                (resources,
                 log @ [(''Error extracting resource '' @ item_href item @ '':'', e)])
            | Inr None \<Rightarrow> (resources, log)
            | Inr (Some resource) \<Rightarrow>
                (let resources = resources(item_href item \<mapsto> resource);
                     fileName = last (split CHR ''/'' (item_href item))
                 in if fileName \<noteq> [] then (resources(fileName \<mapsto> resource), log)
                    else (resources, log)))
         else (resources, log))"

text \<open>The body of the second loop.\<close>

definition content_step ::
  "collaborators \<Rightarrow> zip \<Rightarrow> string \<Rightarrow> manifest \<Rightarrow> (string \<rightharpoonup> string) \<times> console \<Rightarrow>
     EpubManifestItem \<Rightarrow> (string \<rightharpoonup> string) \<times> console" where
  "content_step env z basePath m st item =
     (let (content, log) = st
      in if item_mediaType item = ''application/xhtml+xml'' \<or>
            item_mediaType item = ''text/html'' then
           (case read_string env z (item_href item) of
              Inl (Error message) \<Rightarrow>
                (content(item_id item \<mapsto> ''<p>Error loading content: '' @ message @ ''</p>''),
                 log @ [(''Error extracting HTML content '' @ item_href item @ '':'',
                         Error message)])
            | Inr htmlContent \<Rightarrow>
                if truthy htmlContent
                then (content(item_id item \<mapsto>
                        processHtml env (the htmlContent) (item_href item) basePath m), log)
                else (content, log))
         else (content, log))"

definition parseEpub ::
  "collaborators \<Rightarrow> uint8array \<Rightarrow> console \<Rightarrow> (error + EpubContent) \<times> console" where
  "parseEpub env data log =
     (case parseEpub_stages env data of
        Inl e \<Rightarrow> (Inl e, log)
      | Inr (z, partial) \<Rightarrow>
          (let m = epub_manifest partial;
               (resources, log) = foldl (resource_step z) (Map.empty, log) (object_values m);
               (content, log) =
                 foldl (content_step env z (epub_basePath partial) m) (Map.empty, log)
                   (object_values m)
           in (Inr (partial\<lparr>epub_content := content, epub_resources := resources\<rparr>), log)))"

section \<open>Example inputs\<close>

text \<open>A package document with a chapter and an image that carries the cover property.\<close>

definition opf_example :: document where
  "opf_example =
     Document
       [Element ''package'' []
          [Element ''metadata'' [] [Element ''title'' [] [Text ''Book'']],
           Element ''manifest'' []
             [Element ''item''
                [(''id'', ''ch1''), (''href'', ''./text/ch1.xhtml''),
                 (''media-type'', ''application/xhtml+xml'')] [],
              Element ''item''
                [(''id'', ''img1''), (''href'', ''images/front.jpg''),
                 (''media-type'', ''image/jpeg''), (''properties'', ''cover-image'')] []],
           Element ''spine'' [] [Element ''itemref'' [(''idref'', ''ch1'')] []]]]"

text \<open>
  Navigation documents. In \<open>ncx_nested\<close> the navigation map has one navigation point,
  which has one nested point. In \<open>ncx_unordered\<close> three points carry the play orders
  3, 1, 2. In \<open>ncx_not_numeric\<close> the first of two points has the play order
  \<^verbatim>\<open>abc\<close>.
\<close>

definition nav_point_element :: "string \<Rightarrow> string \<Rightarrow> string \<Rightarrow> node list \<Rightarrow> node" where
  "nav_point_element i playOrder lbl nested =
     Element ''navPoint'' [(''id'', i), (''playOrder'', playOrder)]
       ([Element ''navLabel'' [] [Element ''text'' [] [Text lbl]],
         Element ''content'' [(''src'', i @ ''.html'')] []] @ nested)"

definition ncx_nested :: document where
  "ncx_nested =
     Document
       [Element ''ncx'' []
          [Element ''navMap'' []
             [nav_point_element ''a'' ''1'' ''A'' [nav_point_element ''b'' ''2'' ''B'' []]]]]"

definition ncx_unordered :: document where
  "ncx_unordered =
     Document
       [Element ''ncx'' []
          [Element ''navMap'' []
             [nav_point_element ''c'' ''3'' ''C'' [],
              nav_point_element ''a'' ''1'' ''A'' [],
              nav_point_element ''b'' ''2'' ''B'' []]]]"

definition ncx_not_numeric :: document where
  "ncx_not_numeric =
     Document
       [Element ''ncx'' []
          [Element ''navMap'' []
             [nav_point_element ''x'' ''abc'' ''X'' [],
              nav_point_element ''a'' ''1'' ''A'' []]]]"

text \<open>
  An archive with its package document at the root and three chapters in the manifest:
  the first entry reads well, the second is damaged and the third is not in the archive.
  The stand-ins for the collaborators recognise the entries by their first byte; the
  serializer writes tags and attributes without quoting.
\<close>

definition container_example :: document where
  "container_example =
     Document
       [Element ''container'' []
          [Element ''rootfiles'' []
             [Element ''rootfile'' [(''full-path'', ''content.opf'')] []]]]"

definition opf_chapters :: document where
  "opf_chapters =
     Document
       [Element ''package'' []
          [Element ''manifest'' []
             [Element ''item''
                [(''id'', ''ch1''), (''href'', ''ch1.xhtml''),
                 (''media-type'', ''application/xhtml+xml'')] [],
              Element ''item''
                [(''id'', ''ch2''), (''href'', ''ch2.xhtml''),
                 (''media-type'', ''application/xhtml+xml'')] [],
              Element ''item''
                [(''id'', ''ch3''), (''href'', ''ch3.xhtml''),
                 (''media-type'', ''application/xhtml+xml'')] []],
           Element ''spine'' [] [Element ''itemref'' [(''idref'', ''ch1'')] []]]]"

definition chapter_example :: document where
  "chapter_example =
     Document [Element ''html'' [] [Element ''img'' [(''src'', ''a.png'')] []]]"

definition zip_example :: zip where
  "zip_example path =
     (if path = ''META-INF/container.xml'' then Some (Stored [1])
      else if path = ''content.opf'' then Some (Stored [2])
      else if path = ''ch1.xhtml'' then Some (Stored [3])
      else if path = ''ch2.xhtml'' then Some (Damaged ''corrupted zip'')
      else None)"

definition zip_empty :: zip where
  "zip_empty path = None"

fun serialize_node :: "node \<Rightarrow> string" where
  "serialize_node (Text s) = s"
| "serialize_node (Element t as cs) =
     ''<'' @ t @ concat (map (\<lambda>a. '' '' @ fst a @ ''='' @ snd a) as) @ ''>'' @
     concat (map serialize_node cs) @ ''</'' @ t @ ''>''"

fun serialize_document :: "document \<Rightarrow> string" where
  "serialize_document (Document ns) = concat (map serialize_node ns)"

definition env_example :: collaborators where
  "env_example =
     \<lparr>loadAsync = (\<lambda>data. Inr zip_example),
      utf8decode = (\<lambda>bytes. if bytes = [1] then ''container''
                             else if bytes = [2] then ''package'' else ''chapter''),
      parseXml = (\<lambda>s. if s = ''container'' then container_example
                       else if s = ''package'' then opf_chapters else chapter_example),
      serializeToString = serialize_document\<rparr>"



text \<open>
  A package document whose \<^verbatim>\<open>meta[name="cover"]\<close> names the damaged chapter of the
  archive above, and the collaborators that read it.
\<close>

definition opf_cover_page :: document where
  "opf_cover_page =
     Document
       [Element ''package'' []
          [Element ''metadata'' []
             [Element ''meta'' [(''name'', ''cover''), (''content'', ''ch2'')] []],
           Element ''manifest'' []
             [Element ''item''
                [(''id'', ''ch2''), (''href'', ''ch2.xhtml''),
                 (''media-type'', ''application/xhtml+xml'')] []]]]"

definition env_cover_page :: collaborators where
  "env_cover_page =
     env_example
       \<lparr>parseXml := (\<lambda>s. if s = ''container'' then container_example
                          else if s = ''package'' then opf_cover_page
                          else chapter_example)\<rparr>"

text \<open>
  A package document whose \<^verbatim>\<open>meta[name="cover"]\<close> names \<^verbatim>\<open>constructor\<close>, which is
  no item of the manifest, and whose manifest has an image with the id \<^verbatim>\<open>cover\<close>.
\<close>

definition opf_constructor :: document where
  "opf_constructor =
     Document
       [Element ''package'' []
          [Element ''metadata'' []
             [Element ''meta'' [(''name'', ''cover''), (''content'', ''constructor'')] []],
           Element ''manifest'' []
             [Element ''item''
                [(''id'', ''cover''), (''href'', ''cover.jpg''),
                 (''media-type'', ''image/jpeg'')] []]]]"

section \<open>Properties of the path resolver\<close>

text \<open>
  C1. The specification's worked example expects
  \<^verbatim>\<open>resolve("../images/cover.jpg", "OEBPS/text/")\<close> to be
  \<^verbatim>\<open>"OEBPS/images/cover.jpg"\<close>. The code filters the empty segments of the base
  first and then pops the last one unconditionally, so for a base that ends with a slash
  the directory \<^verbatim>\<open>text\<close> is dropped as if it were a file name, and the
  \<^verbatim>\<open>..\<close> segment then pops \<^verbatim>\<open>OEBPS\<close> as well: the code returns
  \<^verbatim>\<open>"images/cover.jpg"\<close>.
\<close>

theorem resolve_worked_example_code:
  "resolveRelativePath ''../images/cover.jpg'' ''OEBPS/text/'' = ''images/cover.jpg'' \<and>
   resolveRelativePath ''../images/cover.jpg'' ''OEBPS/text/'' \<noteq> ''OEBPS/images/cover.jpg''"
  by (simp add: resolveRelativePath_def startsWith_def pop_def process_part_def)

text \<open>
  C10. With the empty base directory, a reference that does not start with a slash is
  returned as it is, dot segments included.
\<close>

theorem resolve_empty_base_verbatim:
  "\<not> startsWith r ''/'' \<Longrightarrow> resolveRelativePath r '''' = r"
  by (simp add: resolveRelativePath_def)

theorem resolve_empty_base_verbatim_witness:
  "\<not> startsWith ''./a/../b.html'' ''/'' \<and>
   resolveRelativePath ''./a/../b.html'' '''' = ''./a/../b.html''"
proof -
  have h: "\<not> startsWith ''./a/../b.html'' ''/''"
    by (simp add: startsWith_def)
  from resolve_empty_base_verbatim [OF h] h show ?thesis by simp
qed

subsection \<open>Splitting and joining\<close>

lemma split_no_sep: "s \<in> set (split c xs) \<Longrightarrow> c \<notin> set s"
  by (induction xs arbitrary: s) (auto split: list.splits if_splits)

lemma split_single: "c \<notin> set s \<Longrightarrow> split c s = [s]"
  by (induction s) auto

lemma split_append_sep: "c \<notin> set s \<Longrightarrow> split c (s @ c # t) = s # split c t"
  by (induction s) (auto split: list.splits)

lemma split_join:
  "ps \<noteq> [] \<Longrightarrow> \<forall>p \<in> set ps. c \<notin> set p \<Longrightarrow> split c (join [c] ps) = ps"
proof (induction ps rule: induct_list012)
  case 1
  then show ?case by simp
next
  case (2 p)
  then show ?case by (simp add: split_single)
next
  case (3 p q ps)
  then show ?case using split_append_sep [of c p "join [c] (q # ps)"] by simp
qed

lemma join_hd: "ps \<noteq> [] \<Longrightarrow> hd ps \<noteq> [] \<Longrightarrow> hd (join sep ps) = hd (hd ps)"
  by (induction sep ps rule: join.induct) auto

subsection \<open>What the stack of the resolver can hold\<close>

lemma process_part_subset:
  "set (process_part st p) \<subseteq> set st \<union> ({p} - {''..'', ''.'', []})"
  by (auto simp: process_part_def pop_def dest: in_set_butlastD)

lemma process_parts_subset:
  "set (process_parts st ps) \<subseteq> set st \<union> (set ps - {''..'', ''.'', []})"
proof (induction ps arbitrary: st)
  case Nil
  show ?case by simp
next
  case (Cons p ps)
  from Cons.IH [of "process_part st p"] process_part_subset [of st p]
  show ?case by auto
qed

lemma resolve_stack:
  assumes "\<not> startsWith r ''/''" "b \<noteq> []"
  shows "\<exists>st. resolveRelativePath r b = join ''/'' st \<and>
           set st \<subseteq> (set (segments b) - {[]}) \<union> (set (segments r) - {''..'', ''.'', []})"
proof -
  define bp where "bp = filter (\<lambda>p. length p > 0) (split CHR ''/'' b)"
  define bp' where "bp' = (if length bp > 0 then pop bp else bp)"
  define st where "st = process_parts bp' (split CHR ''/'' r)"
  have r: "resolveRelativePath r b = join ''/'' st"
    using assms by (simp add: resolveRelativePath_def st_def bp'_def bp_def Let_def)
  have "set bp' \<subseteq> set bp"
    by (auto simp: bp'_def pop_def dest: in_set_butlastD)
  moreover have "set bp \<subseteq> set (segments b) - {[]}"
    by (auto simp: bp_def segments_def)
  moreover have "set st \<subseteq> set bp' \<union> (set (segments r) - {''..'', ''.'', []})"
    unfolding st_def segments_def by (rule process_parts_subset)
  ultimately have "set st \<subseteq> (set (segments b) - {[]}) \<union> (set (segments r) - {''..'', ''.'', []})"
    by blast
  with r show ?thesis by blast
qed

lemma normalized_join:
  assumes "\<forall>p \<in> set st. p \<noteq> [] \<and> CHR ''/'' \<notin> set p" "''.'' \<notin> set st" "''..'' \<notin> set st"
  shows "normalized (join ''/'' st)"
proof (cases st)
  case Nil
  then show ?thesis by (simp add: normalized_def segments_def startsWith_def)
next
  case (Cons p ps)
  then have ne: "st \<noteq> []" by simp
  have seg: "segments (join ''/'' st) = st"
    unfolding segments_def using split_join [of st "CHR ''/''"] ne assms(1) by simp
  have "hd (join ''/'' st) = hd p"
    using join_hd [of st "''/''"] Cons assms(1) by simp
  moreover have "hd p \<noteq> CHR ''/''"
    using assms(1) Cons by (cases p) auto
  moreover have "join ''/'' st \<noteq> []"
    using Cons assms(1) by (cases ps) auto
  ultimately have "\<not> startsWith (join ''/'' st) ''/''"
    by (cases "join ''/'' st") (auto simp: startsWith_def)
  with seg assms show ?thesis by (simp add: normalized_def)
qed

lemma resolve_relative_normalized:
  assumes "basePath \<noteq> []" "''.'' \<notin> set (segments basePath)"
    "''..'' \<notin> set (segments basePath)" "\<not> startsWith r ''/''"
  shows "normalized (resolveRelativePath r basePath)"
proof -
  from resolve_stack [OF assms(4) assms(1)] obtain st where
    st: "resolveRelativePath r basePath = join ''/'' st"
      "set st \<subseteq> (set (segments basePath) - {[]}) \<union> (set (segments r) - {''..'', ''.'', []})"
    by blast
  have "\<forall>p \<in> set st. p \<noteq> [] \<and> CHR ''/'' \<notin> set p"
    using st(2) by (auto simp: segments_def dest: split_no_sep)
  moreover have "''.'' \<notin> set st" "''..'' \<notin> set st"
    using st(2) assms(2,3) by auto
  ultimately have "normalized (join ''/'' st)"
    by (rule normalized_join)
  with st(1) show ?thesis by simp
qed

subsection \<open>An invariant of the manifest loop\<close>

lemma set_alist_update: "set (AList.update k v al) \<subseteq> insert (k, v) (set al)"
  by (induction al) auto

lemma manifest_step_hrefs:
  assumes "\<forall>(k, it) \<in> set m. P (item_href it)"
    and "\<And>h. getAttribute item ''href'' = Some h \<Longrightarrow> h \<noteq> [] \<Longrightarrow> P (resolveRelativePath h b)"
  shows "\<forall>(k, it) \<in> set (manifest_step b m item). P (item_href it)"
proof (cases "truthy (getAttribute item ''id'') \<and> truthy (getAttribute item ''href'') \<and>
    truthy (getAttribute item ''media-type'')")
  case False
  then show ?thesis using assms(1) by (auto simp: manifest_step_def Let_def)
next
  case True
  then obtain h where h: "getAttribute item ''href'' = Some h" "h \<noteq> []"
    by (cases "getAttribute item ''href''") auto
  show ?thesis using True h assms(1) assms(2) [OF h] set_alist_update
    by (fastforce simp: manifest_step_def Let_def)
qed

lemma foldl_manifest_hrefs:
  assumes "\<forall>(k, it) \<in> set m. P (item_href it)"
    and "\<And>item h. item \<in> set els \<Longrightarrow> getAttribute item ''href'' = Some h \<Longrightarrow> h \<noteq> [] \<Longrightarrow>
           P (resolveRelativePath h b)"
  shows "\<forall>(k, it) \<in> set (foldl (manifest_step b) m els). P (item_href it)"
  using assms
proof (induction els arbitrary: m)
  case Nil
  then show ?case by simp
next
  case (Cons x xs)
  have step: "\<forall>(k, it) \<in> set (manifest_step b m x). P (item_href it)"
  proof (rule manifest_step_hrefs)
    show "\<forall>(k, it) \<in> set m. P (item_href it)" by (rule Cons.prems(1))
  next
    fix h assume "getAttribute x ''href'' = Some h" "h \<noteq> []"
    then show "P (resolveRelativePath h b)" using Cons.prems(2) [of x h] by simp
  qed
  have "\<forall>(k, it) \<in> set (foldl (manifest_step b) (manifest_step b m x) xs). P (item_href it)"
  proof (rule Cons.IH [OF step])
    fix item h
    assume "item \<in> set xs" "getAttribute item ''href'' = Some h" "h \<noteq> []"
    then show "P (resolveRelativePath h b)" using Cons.prems(2) [of item h] by simp
  qed
  then show ?case by simp
qed

text \<open>
  C2 (as amended). For a base directory that is not empty and has no \<^verbatim>\<open>.\<close> or
  \<^verbatim>\<open>..\<close> segment of its own, every reference that does not start with a slash
  resolves to a normalized path: no \<^verbatim>\<open>.\<close> or \<^verbatim>\<open>..\<close> segment and no leading slash
  (with or without \<^verbatim>\<open>..\<close> segments in the reference). Consequently, when no item of
  the package document has an href that starts with a slash, every href that
  \<^verbatim>\<open>parseManifest\<close> stores is normalized.
\<close>

theorem resolve_normalized:
  assumes "basePath \<noteq> []" "''.'' \<notin> set (segments basePath)"
    "''..'' \<notin> set (segments basePath)"
  shows "(\<not> startsWith r ''/'' \<longrightarrow> normalized (resolveRelativePath r basePath)) \<and>
         ((\<forall>item \<in> set (doc_querySelectorAll opfDoc (Descendant ''manifest'' (Type ''item''))).
             \<forall>h. getAttribute item ''href'' = Some h \<longrightarrow> \<not> startsWith h ''/'') \<longrightarrow>
          (\<forall>(k, it) \<in> set (parseManifest opfDoc basePath). normalized (item_href it)))"
proof (intro conjI impI)
  assume "\<not> startsWith r ''/''"
  with assms show "normalized (resolveRelativePath r basePath)"
    by (simp add: resolve_relative_normalized)
next
  assume rel: "\<forall>item \<in> set (doc_querySelectorAll opfDoc (Descendant ''manifest'' (Type ''item''))).
                 \<forall>h. getAttribute item ''href'' = Some h \<longrightarrow> \<not> startsWith h ''/''"
  have "\<forall>(k, it) \<in> set (foldl (manifest_step basePath) []
           (doc_querySelectorAll opfDoc (Descendant ''manifest'' (Type ''item'')))).
          normalized (item_href it)"
  proof (rule foldl_manifest_hrefs)
    show "\<forall>(k, it) \<in> set []. normalized (item_href it)" by simp
  next
    fix item h
    assume "item \<in> set (doc_querySelectorAll opfDoc (Descendant ''manifest'' (Type ''item'')))"
      "getAttribute item ''href'' = Some h"
    with rel have "\<not> startsWith h ''/''" by blast
    with assms show "normalized (resolveRelativePath h basePath)"
      by (simp add: resolve_relative_normalized)
  qed
  then show "\<forall>(k, it) \<in> set (parseManifest opfDoc basePath). normalized (item_href it)"
    by (simp add: parseManifest_def Let_def)
qed

lemma opf_example_items:
  "doc_querySelectorAll opf_example (Descendant ''manifest'' (Type ''item'')) =
     [([''manifest'', ''package''],
       Element ''item''
         [(''id'', ''ch1''), (''href'', ''./text/ch1.xhtml''),
          (''media-type'', ''application/xhtml+xml'')] []),
      ([''manifest'', ''package''],
       Element ''item''
         [(''id'', ''img1''), (''href'', ''images/front.jpg''),
          (''media-type'', ''image/jpeg''), (''properties'', ''cover-image'')] [])]"
  by (simp add: opf_example_def)

lemma opf_example_manifest:
  "parseManifest opf_example ''OEBPS/'' =
     [(''ch1'', \<lparr>item_id = ''ch1'', item_href = ''text/ch1.xhtml'',
                 item_mediaType = ''application/xhtml+xml''\<rparr>),
      (''img1'', \<lparr>item_id = ''img1'', item_href = ''images/front.jpg'',
                  item_mediaType = ''image/jpeg''\<rparr>)]"
  by (simp add: parseManifest_def opf_example_items manifest_step_def
      resolveRelativePath_def startsWith_def pop_def process_part_def)

theorem resolve_normalized_witness:
  "''OEBPS/'' \<noteq> [] \<and> ''.'' \<notin> set (segments ''OEBPS/'') \<and> ''..'' \<notin> set (segments ''OEBPS/'') \<and>
   \<not> startsWith ''./a/../ch1.xhtml'' ''/'' \<and>
   normalized (resolveRelativePath ''./a/../ch1.xhtml'' ''OEBPS/'') \<and>
   parseManifest opf_example ''OEBPS/'' \<noteq> [] \<and>
   list_all (\<lambda>(k, it). normalized (item_href it)) (parseManifest opf_example ''OEBPS/'')"
proof -
  have b: "''OEBPS/'' \<noteq> []" "''.'' \<notin> set (segments ''OEBPS/'')"
    "''..'' \<notin> set (segments ''OEBPS/'')"
    by (simp_all add: segments_def)
  have r: "\<not> startsWith ''./a/../ch1.xhtml'' ''/''"
    by (simp add: startsWith_def)
  have hrefs: "\<forall>item \<in> set (doc_querySelectorAll opf_example
                   (Descendant ''manifest'' (Type ''item''))).
                 \<forall>h. getAttribute item ''href'' = Some h \<longrightarrow> \<not> startsWith h ''/''"
    by (auto simp: opf_example_items startsWith_def)
  note inst = resolve_normalized [OF b, of "''./a/../ch1.xhtml''" opf_example]
  from inst r have 1: "normalized (resolveRelativePath ''./a/../ch1.xhtml'' ''OEBPS/'')"
    by blast
  from inst hrefs have
    "\<forall>(k, it) \<in> set (parseManifest opf_example ''OEBPS/''). normalized (item_href it)"
    by blast
  then have 2: "list_all (\<lambda>(k, it). normalized (item_href it))
                  (parseManifest opf_example ''OEBPS/'')"
    by (simp add: list_all_iff)
  have 3: "parseManifest opf_example ''OEBPS/'' \<noteq> []"
    by (simp add: opf_example_manifest)
  from b r 1 2 3 show ?thesis by blast
qed

text \<open>
  The claim as it was stated fails at the archive root, which it names: with the empty
  base directory the reference \<^verbatim>\<open>./ch1.xhtml\<close>, which has no \<^verbatim>\<open>..\<close> segment, is
  returned unchanged, and \<^verbatim>\<open>parseManifest\<close> stores it so.
\<close>

theorem resolve_normalized_counterexample:
  "''..'' \<notin> set (segments ''./ch1.xhtml'') \<and>
   \<not> normalized (resolveRelativePath ''./ch1.xhtml'' '''') \<and>
   \<not> normalized ''./ch1.xhtml'' \<and>
   parseManifest
     (Document [Element ''package'' []
        [Element ''manifest'' []
           [Element ''item'' [(''id'', ''ch1''), (''href'', ''./ch1.xhtml''),
              (''media-type'', ''application/xhtml+xml'')] []]]]) '''' =
     [(''ch1'', \<lparr>item_id = ''ch1'', item_href = ''./ch1.xhtml'',
                 item_mediaType = ''application/xhtml+xml''\<rparr>)]"
  by (simp add: segments_def normalized_def resolveRelativePath_def startsWith_def
      parseManifest_def manifest_step_def)

text \<open>
  The other two hypotheses of the amended statement are needed as well: an absolute
  reference only loses its first slash, and the segments of the base are kept as they
  are.
\<close>

lemma resolve_not_normalized_otherwise:
  "resolveRelativePath ''/./a'' ''x/'' = ''./a'' \<and>
   resolveRelativePath ''//a'' ''x/'' = ''/a'' \<and>
   resolveRelativePath ''a'' ''./x/'' = ''./a''"
  by (simp add: resolveRelativePath_def startsWith_def pop_def process_part_def)

section \<open>Properties of the navigation stage\<close>

subsection \<open>The sort\<close>

lemma set_insert_by: "set (insert_by c x ys) = insert x (set ys)"
  by (induction ys) auto

lemma mset_insert_by: "mset (insert_by c x ys) = add_mset x (mset ys)"
  by (induction ys) auto

lemma set_js_sort: "set (js_sort c xs) = set xs"
  by (induction xs) (auto simp: js_sort_def set_insert_by)

lemma mset_js_sort: "mset (js_sort c xs) = mset xs"
  by (induction xs) (auto simp: js_sort_def mset_insert_by)

lemma insert_by_sorted:
  assumes "\<forall>z \<in> insert x (set ys). \<exists>n. key z = Num n"
    and "sorted_wrt (\<lambda>a b. num_le (key a) (key b)) ys"
  shows "sorted_wrt (\<lambda>a b. num_le (key a) (key b))
           (insert_by (\<lambda>a b. num_sub (key a) (key b)) x ys)"
  using assms
proof (induction ys)
  case Nil
  then show ?case by simp
next
  case (Cons y ys)
  from Cons.prems(1) obtain nx ny where k: "key x = Num nx" "key y = Num ny" by auto
  show ?case
  proof (cases "nx \<le> ny")
    case True
    have "\<forall>z \<in> set ys. num_le (key x) (key z)"
    proof
      fix z assume z: "z \<in> set ys"
      with Cons.prems(1) obtain nz where "key z = Num nz" by auto
      moreover from z Cons.prems(2) have "num_le (key y) (key z)" by simp
      ultimately show "num_le (key x) (key z)" using k True by simp
    qed
    with True k Cons.prems(2) show ?thesis by simp
  next
    case False
    have ih: "sorted_wrt (\<lambda>a b. num_le (key a) (key b))
                (insert_by (\<lambda>a b. num_sub (key a) (key b)) x ys)"
      using Cons.IH Cons.prems by simp
    have "\<forall>z \<in> set (insert_by (\<lambda>a b. num_sub (key a) (key b)) x ys).
            num_le (key y) (key z)"
      using Cons.prems(2) False k by (auto simp: set_insert_by)
    with ih False k show ?thesis by simp
  qed
qed

text \<open>
  When every order is a number, the sort of \<^verbatim>\<open>parseNavPoints\<close> returns the same
  points in ascending order.
\<close>

lemma js_sort_sorted:
  assumes "\<forall>z \<in> set xs. \<exists>n. key z = Num n"
  shows "sorted_wrt (\<lambda>a b. num_le (key a) (key b))
           (js_sort (\<lambda>a b. num_sub (key a) (key b)) xs)"
  using assms
proof (induction xs)
  case Nil
  show ?case by (simp add: js_sort_def)
next
  case (Cons x xs)
  have "sorted_wrt (\<lambda>a b. num_le (key a) (key b))
          (insert_by (\<lambda>a b. num_sub (key a) (key b)) x
             (js_sort (\<lambda>a b. num_sub (key a) (key b)) xs))"
  proof (rule insert_by_sorted)
    show "\<forall>z \<in> insert x (set (js_sort (\<lambda>a b. num_sub (key a) (key b)) xs)).
            \<exists>n. key z = Num n"
      using Cons.prems by (simp add: set_js_sort)
    show "sorted_wrt (\<lambda>a b. num_le (key a) (key b))
            (js_sort (\<lambda>a b. num_sub (key a) (key b)) xs)"
      using Cons by simp
  qed
  then show ?case by (simp add: js_sort_def)
qed

lemma parseNavPoints_sorted_when_numeric:
  assumes "\<forall>p \<in> set (parseNavPoints ncxDoc). \<exists>n. nav_order p = Num n"
  shows "sorted_wrt (\<lambda>a b. num_le (nav_order a) (nav_order b)) (parseNavPoints ncxDoc)"
proof -
  obtain ps where ps: "parseNavPoints ncxDoc = js_sort (\<lambda>a b. num_sub (nav_order a) (nav_order b)) ps"
    by (simp add: parseNavPoints_def Let_def)
  with assms have "\<forall>p \<in> set ps. \<exists>n. nav_order p = Num n"
    by (simp add: set_js_sort)
  then show ?thesis unfolding ps by (rule js_sort_sorted)
qed

subsection \<open>The fields of a navigation point\<close>

lemma parseNavPoint_fields:
  assumes "parseNavPoint e = Some p"
  shows "nav_order p =
           (if truthy (getAttribute e ''playOrder'')
            then parseInt (the (getAttribute e ''playOrder'')) else Num 0) \<and>
         nav_children p = push_results parseNavPoint (scope_children e ''navPoint'')"
proof (cases e)
  case (Pair anc n)
  with assms show ?thesis
    by (auto simp: parseNavPoint.simps Let_def split: if_splits)
qed

lemma takeWhile_all: "list_all P s \<Longrightarrow> takeWhile P s = s"
  by (induction s) auto

text \<open>On a numeral \<^verbatim>\<open>parseInt\<close> returns its value.\<close>

lemma parseInt_numeral:
  assumes "s \<noteq> []" "list_all is_digit s"
  shows "parseInt s = Num (digits_value s)"
proof -
  from assms obtain c cs where s: "s = c # cs" by (cases s) auto
  with assms(2) have d: "is_digit c" by simp
  then have nw: "\<not> is_whitespace c" by (auto simp: is_digit_def is_whitespace_def)
  from d have ns: "c \<noteq> CHR ''+''" "c \<noteq> CHR ''-''" by (auto simp: is_digit_def)
  from assms(2) have "takeWhile is_digit s = s" by (rule takeWhile_all)
  with s nw ns show ?thesis by (simp add: parseInt_def Let_def)
qed

text \<open>On a string that starts with anything but white space, a sign or a digit it returns \<^verbatim>\<open>NaN\<close>.\<close>

lemma parseInt_no_digit:
  assumes "s \<noteq> []" "\<not> is_whitespace (hd s)" "hd s \<noteq> CHR ''+''" "hd s \<noteq> CHR ''-''"
    "\<not> is_digit (hd s)"
  shows "parseInt s = NaN"
proof -
  from assms obtain c cs where s: "s = c # cs" by (cases s) auto
  with assms show ?thesis by (simp add: parseInt_def Let_def)
qed

text \<open>
  The order of a navigation point, where it is as specified: for a point that is not
  dropped, a play order that is a numeral gives its value, and an absent or empty one
  gives 0.
\<close>

lemma parseNavPoint_order_numeral:
  assumes "parseNavPoint e = Some p" "getAttribute e ''playOrder'' = Some s"
    "s \<noteq> []" "list_all is_digit s"
  shows "nav_order p = Num (digits_value s)"
  using parseNavPoint_fields [OF assms(1)] assms(2,3) parseInt_numeral [OF assms(3,4)]
  by simp

lemma parseNavPoint_order_default:
  assumes "parseNavPoint e = Some p" "\<not> truthy (getAttribute e ''playOrder'')"
  shows "nav_order p = Num 0"
  using parseNavPoint_fields [OF assms(1)] assms(2) by simp

text \<open>
  What \<^verbatim>\<open>parseNavPoints\<close> returns at the top level: the points built from all
  navigation-point elements below the navigation map, at any depth.
\<close>

lemma parseNavPoints_collects_descendants:
  assumes "doc_querySelector ncxDoc (Type ''navMap'') = Some navMapEl"
  shows "mset (parseNavPoints ncxDoc) =
         mset (push_results parseNavPoint (querySelectorAll navMapEl (Type ''navPoint'')))"
  using assms by (simp add: parseNavPoints_def mset_js_sort)

subsection \<open>The claims\<close>

lemma ncx_nested_navMap:
  "doc_querySelector ncx_nested (Type ''navMap'') =
     Some ([''ncx''],
           Element ''navMap'' []
             [nav_point_element ''a'' ''1'' ''A'' [nav_point_element ''b'' ''2'' ''B'' []]])"
  by (simp add: ncx_nested_def doc_querySelector_def nav_point_element_def)

text \<open>
  C3. The navigation map of \<open>ncx_nested\<close> has exactly one direct child navigation point,
  \<^verbatim>\<open>a\<close>, with the nested point \<^verbatim>\<open>b\<close>. \<^verbatim>\<open>parseNavPoints\<close> queries the map for
  \<^verbatim>\<open>navPoint\<close>, which selects every descendant, so \<^verbatim>\<open>b\<close> is returned twice: inside
  the children of \<^verbatim>\<open>a\<close> and as a second top-level entry.
\<close>

theorem parseNavPoints_nested_twice:
  "length (scope_children (the (doc_querySelector ncx_nested (Type ''navMap''))) ''navPoint'') = 1 \<and>
   parseNavPoints ncx_nested =
     [EpubNavPoint ''a'' ''A'' ''a.html'' (Num 1)
        [EpubNavPoint ''b'' ''B'' ''b.html'' (Num 2) []],
      EpubNavPoint ''b'' ''B'' ''b.html'' (Num 2) []]"
proof
  show "length (scope_children (the (doc_querySelector ncx_nested (Type ''navMap'')))
          ''navPoint'') = 1"
    by (simp add: ncx_nested_navMap scope_children_def nav_point_element_def)
  show "parseNavPoints ncx_nested =
     [EpubNavPoint ''a'' ''A'' ''a.html'' (Num 1)
        [EpubNavPoint ''b'' ''B'' ''b.html'' (Num 2) []],
      EpubNavPoint ''b'' ''B'' ''b.html'' (Num 2) []]"
    by code_simp
qed

text \<open>The worked example of the specification: play orders 3, 1, 2 come out as 1, 2, 3.\<close>

lemma parseNavPoints_unordered:
  "map nav_id (parseNavPoints ncx_unordered) = [''a'', ''b'', ''c''] \<and>
   map nav_order (parseNavPoints ncx_unordered) = [Num 1, Num 2, Num 3]"
  by code_simp

text \<open>
  C4. A play order that is not a numeral gives the order \<^verbatim>\<open>NaN\<close>. The
  comparison function of the sort then returns \<^verbatim>\<open>NaN\<close> for every pair of
  \<open>ncx_not_numeric\<close>, the sort leaves the points as they are, and the orders of the
  result, \<^verbatim>\<open>NaN\<close> and 1, are not ascending (nor would they be the other way
  round).
\<close>

theorem parseNavPoints_not_ascending:
  "parseNavPoints ncx_not_numeric =
     [EpubNavPoint ''x'' ''X'' ''x.html'' NaN [], EpubNavPoint ''a'' ''A'' ''a.html'' (Num 1) []] \<and>
   \<not> sorted_wrt num_le (map nav_order (parseNavPoints ncx_not_numeric)) \<and>
   \<not> sorted_wrt num_le (rev (map nav_order (parseNavPoints ncx_not_numeric)))"
proof -
  have v: "parseNavPoints ncx_not_numeric =
     [EpubNavPoint ''x'' ''X'' ''x.html'' NaN [], EpubNavPoint ''a'' ''A'' ''a.html'' (Num 1) []]"
    by code_simp
  then show ?thesis by simp
qed

text \<open>
  C8. For a navigation point with id, label and content whose \<^verbatim>\<open>playOrder\<close> is
  \<^verbatim>\<open>abc\<close>, the order is \<^verbatim>\<open>NaN\<close>, not 0: only an absent or empty attribute
  takes the default.
\<close>

theorem parseNavPoint_order_not_numeric:
  "parseNavPoint ([''navMap'', ''ncx''], nav_point_element ''x'' ''abc'' ''X'' []) =
     Some (EpubNavPoint ''x'' ''X'' ''x.html'' NaN []) \<and>
   nav_order (the (parseNavPoint ([''navMap'', ''ncx''], nav_point_element ''x'' ''abc'' ''X'' [])))
     \<noteq> Num 0"
proof -
  have v: "parseNavPoint ([''navMap'', ''ncx''], nav_point_element ''x'' ''abc'' ''X'' []) =
     Some (EpubNavPoint ''x'' ''X'' ''x.html'' NaN [])"
    by code_simp
  then show ?thesis by simp
qed

section \<open>Properties of cover resolution\<close>

subsection \<open>Lookups in the manifest\<close>

lemma manifest_get_own: "map_of m k = Some it \<Longrightarrow> manifest_get m k = Some (Item it)"
  by (simp add: manifest_get_def)

text \<open>
  Only an own key has an href: \<^verbatim>\<open>manifest[key]?.href\<close>, as the parse reads the href
  of the navigation resource, is the href of the item under that key, if there is one.
\<close>

lemma manifest_get_href: "js_href (manifest_get m k) = map_option item_href (map_of m k)"
  by (simp add: manifest_get_def split: option.splits)

lemma manifest_get_not_inherited:
  assumes "k \<notin> set object_prototype_names" "k \<noteq> ''id''" "k \<noteq> ''href''" "k \<noteq> ''mediaType''"
  shows "manifest_get m k = map_option Item (map_of m k)"
  using assms by (simp add: manifest_get_def split: option.splits)

lemma manifest_get_literal_ids:
  "manifest_get m ''cover'' = map_option Item (map_of m ''cover'')"
  "manifest_get m ''cover-image'' = map_option Item (map_of m ''cover-image'')"
  by (rule manifest_get_not_inherited; simp add: object_prototype_names_def)+

subsection \<open>The loops and the strategies\<close>

lemma cover_by_ids_literal:
  "cover_by_ids m [''cover'', ''cover-image''] = strategy_literal_id opfDoc m"
  by (simp add: strategy_literal_id_def manifest_get_literal_ids List.map_filter_simps
      split: option.splits)

lemma cover_by_properties_first:
  assumes "\<forall>e \<in> set els. \<forall>i. getAttribute e ''id'' = Some i \<longrightarrow>
             manifest_get m i = map_option Item (map_of m i)"
  shows "cover_by_properties m els =
     map_option (\<lambda>it. Some (item_href it))
       (case List.map_filter
               (\<lambda>e. case getAttribute e ''id'' of None \<Rightarrow> None | Some i \<Rightarrow>
                      if i = [] then None else map_of m i) els
        of [] \<Rightarrow> None | it # _ \<Rightarrow> Some it)"
  using assms
  by (induction els) (auto simp: List.map_filter_simps Let_def split: option.splits)

lemma cover_by_name_find:
  "cover_by_name its =
     map_option item_href
       (List.find
          (\<lambda>it. isImageType (item_mediaType it) \<and>
                (includesStr (toLowerCase (item_id it)) ''cover'' \<or>
                 includesStr (toLowerCase (item_href it)) ''cover'')) its)"
  by (induction its) auto

text \<open>
  When neither the id that the cover metadata names nor the id of an item element with
  the cover property is an inherited name, \<^verbatim>\<open>findCoverPath\<close> returns the result of the
  first of the four strategies that succeeds, in the order meta element, literal ids,
  cover property, name.
\<close>

lemma findCoverPath_first_success_own_keys:
  assumes meta: "\<forall>e c. doc_querySelector opfDoc (TypeAttr ''meta'' ''name'' ''cover'') = Some e \<longrightarrow>
                   getAttribute e ''content'' = Some c \<longrightarrow>
                   manifest_get m c = map_option Item (map_of m c)"
    and props: "\<forall>e \<in> set (doc_querySelectorAll opfDoc
                   (Descendant ''manifest'' (TypeAttr ''item'' ''properties'' ''cover-image''))).
                  \<forall>i. getAttribute e ''id'' = Some i \<longrightarrow>
                    manifest_get m i = map_option Item (map_of m i)"
  shows "findCoverPath opfDoc m =
     first_success [strategy_meta, strategy_literal_id, strategy_properties, strategy_name]
       opfDoc m"
proof -
  have 1: "findCoverPath opfDoc m =
     (case strategy_meta opfDoc m of
        Some h \<Rightarrow> Some h
      | None \<Rightarrow>
         (case cover_by_ids m [''cover'', ''cover-image''] of
            Some h \<Rightarrow> Some h
          | None \<Rightarrow>
             (case cover_by_properties m
                     (doc_querySelectorAll opfDoc
                        (Descendant ''manifest''
                           (TypeAttr ''item'' ''properties'' ''cover-image'')))
              of Some r \<Rightarrow> r
               | None \<Rightarrow> cover_by_name (object_values m))))"
    using meta
    by (auto simp: findCoverPath_def strategy_meta_def Let_def split: option.splits)
  show ?thesis
    unfolding 1 cover_by_ids_literal [of m opfDoc] cover_by_properties_first [OF props]
    by (simp add: strategy_properties_def strategy_name_def cover_by_name_find
        split: option.splits list.splits)
qed

text \<open>
  The worked example of the specification: with no \<^verbatim>\<open>meta[name="cover"]\<close> element
  and no image under the two literal ids, when the first item element with the cover
  property has the id \<^verbatim>\<open>img1\<close>, which is in the manifest, the result is the href of
  \<^verbatim>\<open>img1\<close>.
\<close>

lemma findCoverPath_cover_property:
  assumes "doc_querySelector opfDoc (TypeAttr ''meta'' ''name'' ''cover'') = None"
    and "strategy_literal_id opfDoc m = None"
    and "doc_querySelectorAll opfDoc
           (Descendant ''manifest'' (TypeAttr ''item'' ''properties'' ''cover-image'')) = e # es"
    and "getAttribute e ''id'' = Some ''img1''"
    and "map_of m ''img1'' = Some it"
  shows "findCoverPath opfDoc m = Some (item_href it)"
  using assms cover_by_ids_literal [of m opfDoc]
  by (simp add: findCoverPath_def manifest_get_own)

lemma findCoverPath_cover_property_example:
  "findCoverPath opf_example (parseManifest opf_example ''OEBPS/'') = Some ''images/front.jpg''"
proof -
  let ?m = "parseManifest opf_example ''OEBPS/''"
  let ?it = "\<lparr>item_id = ''img1'', item_href = ''images/front.jpg'',
              item_mediaType = ''image/jpeg''\<rparr>"
  let ?e = "([''manifest'', ''package''],
       Element ''item''
         [(''id'', ''img1''), (''href'', ''images/front.jpg''),
          (''media-type'', ''image/jpeg''), (''properties'', ''cover-image'')] [])"
  have 1: "doc_querySelector opf_example (TypeAttr ''meta'' ''name'' ''cover'') = None"
    by (simp add: doc_querySelector_def opf_example_def)
  have 2: "strategy_literal_id opf_example ?m = None"
    by (simp add: strategy_literal_id_def opf_example_manifest List.map_filter_simps)
  have 3: "doc_querySelectorAll opf_example
      (Descendant ''manifest'' (TypeAttr ''item'' ''properties'' ''cover-image'')) = ?e # []"
    by (simp add: opf_example_def)
  have 4: "getAttribute ?e ''id'' = Some ''img1''" by simp
  have 5: "map_of ?m ''img1'' = Some ?it"
    by (simp add: opf_example_manifest)
  from findCoverPath_cover_property [OF 1 2 3 4 5] show ?thesis by simp
qed

lemma opf_constructor_manifest:
  "parseManifest opf_constructor '''' =
     [(''cover'', \<lparr>item_id = ''cover'', item_href = ''cover.jpg'',
                   item_mediaType = ''image/jpeg''\<rparr>)]"
  by (simp add: parseManifest_def opf_constructor_def manifest_step_def
      resolveRelativePath_def startsWith_def)

lemma opf_constructor_meta:
  "doc_querySelector opf_constructor (TypeAttr ''meta'' ''name'' ''cover'') =
     Some ([''metadata'', ''package''],
           Element ''meta'' [(''name'', ''cover''), (''content'', ''constructor'')] [])"
  by (simp add: doc_querySelector_def opf_constructor_def)

text \<open>
  C5. The cover metadata of \<open>opf_constructor\<close> names \<^verbatim>\<open>constructor\<close>, which is no
  item of the manifest, so the first strategy does not succeed; the second one does, with
  the image under the id \<^verbatim>\<open>cover\<close>, and the first success of the four strategies in
  their order is its href. The test \<^verbatim>\<open>manifest[coverId]\<close> of \<^verbatim>\<open>findCoverPath\<close>
  finds the function that every object inherits under that name, takes the branch of the
  first strategy and returns its href, which is \<^verbatim>\<open>undefined\<close>: no cover, and no
  other strategy is tried.
\<close>

theorem findCoverPath_inherited_name:
  "map_of (parseManifest opf_constructor '''') ''constructor'' = None \<and>
   strategy_meta opf_constructor (parseManifest opf_constructor '''') = None \<and>
   strategy_literal_id opf_constructor (parseManifest opf_constructor '''') = Some ''cover.jpg'' \<and>
   first_success [strategy_meta, strategy_literal_id, strategy_properties, strategy_name]
     opf_constructor (parseManifest opf_constructor '''') = Some ''cover.jpg'' \<and>
   findCoverPath opf_constructor (parseManifest opf_constructor '''') = None"
proof -
  have 1: "strategy_meta opf_constructor (parseManifest opf_constructor '''') = None"
    by (simp add: strategy_meta_def opf_constructor_meta opf_constructor_manifest)
  have 2: "strategy_literal_id opf_constructor (parseManifest opf_constructor '''') =
             Some ''cover.jpg''"
    by (simp add: strategy_literal_id_def opf_constructor_manifest List.map_filter_simps
        isImageType_def startsWith_def)
  have 3: "findCoverPath opf_constructor (parseManifest opf_constructor '''') = None"
    by (simp add: findCoverPath_def opf_constructor_meta opf_constructor_manifest
        manifest_get_def object_prototype_names_def)
  from 1 2 3 show ?thesis by (simp add: opf_constructor_manifest)
qed

section \<open>Properties of the top-level parse\<close>


text \<open>
  C6. When the archive has no entry \<^verbatim>\<open>META-INF/container.xml\<close>, the parse fails with
  the error \<^verbatim>\<open>Invalid EPUB: Missing container.xml\<close>; the result is the error alone.
\<close>

theorem parseEpub_missing_container:
  assumes "loadAsync env data = Inr z" "z ''META-INF/container.xml'' = None"
  shows "parseEpub env data log = (Inl (Error ''Invalid EPUB: Missing container.xml''), log)"
  using assms by (simp add: parseEpub_def parseEpub_stages_def read_string_def)

theorem parseEpub_missing_container_witness:
  "loadAsync (env_example\<lparr>loadAsync := \<lambda>data. Inr zip_empty\<rparr>) [] = Inr zip_empty \<and>
   zip_empty ''META-INF/container.xml'' = None \<and>
   parseEpub (env_example\<lparr>loadAsync := \<lambda>data. Inr zip_empty\<rparr>) [] [] =
     (Inl (Error ''Invalid EPUB: Missing container.xml''), [])"
proof -
  let ?env = "env_example\<lparr>loadAsync := \<lambda>data. Inr zip_empty\<rparr>"
  have 1: "loadAsync ?env [] = Inr zip_empty" by simp
  have 2: "zip_empty ''META-INF/container.xml'' = None" by (simp add: zip_empty_def)
  from parseEpub_missing_container [OF 1 2, of "[]"] 1 2 show ?thesis by simp
qed


subsection \<open>The console does not reach the result\<close>

lemma resource_step_fst:
  "fst (resource_step z (r, l) x) = fst (resource_step z (r, l') x)"
  by (simp add: resource_step_def Let_def split: sum.splits option.splits)

lemma resource_fold_fst:
  "fst (foldl (resource_step z) (r, l) xs) = fst (foldl (resource_step z) (r, l') xs)"
proof (induction xs arbitrary: r l l')
  case Nil
  show ?case by simp
next
  case (Cons x xs)
  obtain r1 l1 where 1: "resource_step z (r, l) x = (r1, l1)" by (cases "resource_step z (r, l) x")
  obtain r2 l2 where 2: "resource_step z (r, l') x = (r2, l2)" by (cases "resource_step z (r, l') x")
  from 1 2 resource_step_fst [of z r l x l'] have "r1 = r2" by simp
  with 1 2 Cons.IH [of r1 l1 l2] show ?case by simp
qed

lemma content_step_fst:
  "fst (content_step env z b m (c, l) x) = fst (content_step env z b m (c, l') x)"
  by (simp add: content_step_def Let_def split: sum.splits option.splits error.splits)

lemma content_fold_fst:
  "fst (foldl (content_step env z b m) (c, l) xs) = fst (foldl (content_step env z b m) (c, l') xs)"
proof (induction xs arbitrary: c l l')
  case Nil
  show ?case by simp
next
  case (Cons x xs)
  obtain c1 l1 where 1: "content_step env z b m (c, l) x = (c1, l1)"
    by (cases "content_step env z b m (c, l) x")
  obtain c2 l2 where 2: "content_step env z b m (c, l') x = (c2, l2)"
    by (cases "content_step env z b m (c, l') x")
  from 1 2 content_step_fst [of env z b m c l x l'] have "c1 = c2" by simp
  with 1 2 Cons.IH [of c1 l1 l2] show ?case by simp
qed

lemma parseEpub_fst: "fst (parseEpub env data l) = fst (parseEpub env data l')"
proof (cases "parseEpub_stages env data")
  case (Inl e)
  then show ?thesis by (simp add: parseEpub_def)
next
  case (Inr zp)
  obtain z p where zp: "zp = (z, p)" by (cases zp)
  let ?vs = "object_values (epub_manifest p)"
  have r: "fst (foldl (resource_step z) (Map.empty, l) ?vs) = fst (foldl (resource_step z) (Map.empty, l') ?vs)"
    by (rule resource_fold_fst)
  have c: "\<And>k k'. fst (foldl (content_step env z (epub_basePath p) (epub_manifest p)) (Map.empty, k) ?vs)
      = fst (foldl (content_step env z (epub_basePath p) (epub_manifest p)) (Map.empty, k') ?vs)"
    by (rule content_fold_fst)
  show ?thesis using Inr zp r c
    by (simp add: parseEpub_def Let_def split_beta)
qed

subsection \<open>The keys of the manifest\<close>












subsection \<open>The markup pass\<close>






subsection \<open>The example archive\<close>

lemma container_rootfile:
  "doc_querySelector container_example (Type ''rootfile'') =
     Some ([''rootfiles'', ''container''], Element ''rootfile'' [(''full-path'', ''content.opf'')] [])"
  by (simp add: container_example_def doc_querySelector_def)











text \<open>
  The reads of the navigation resource and of the cover are outside any \<^verbatim>\<open>try\<close>
  block. When the damaged chapter is also what the cover metadata names, its read at the
  cover stage rejects and the whole parse fails with that error: the statement above
  starts after these stages for this reason.
\<close>

lemma parseEpub_cover_read_aborts:
  "parseEpub env_cover_page [] [] = (Inl (Error ''corrupted zip''), [])"
proof -
  have m: "parseManifest opf_cover_page '''' =
             [(''ch2'', \<lparr>item_id = ''ch2'', item_href = ''ch2.xhtml'',
                         item_mediaType = ''application/xhtml+xml''\<rparr>)]"
    by (simp add: parseManifest_def opf_cover_page_def manifest_step_def
        resolveRelativePath_def startsWith_def)
  have s: "spine_toc (parseSpine opf_cover_page) = ''''"
    by (simp add: parseSpine_def opf_cover_page_def doc_querySelector_def)
  have c: "findCoverPath opf_cover_page
             [(''ch2'', \<lparr>item_id = ''ch2'', item_href = ''ch2.xhtml'',
                         item_mediaType = ''application/xhtml+xml''\<rparr>)] = Some ''ch2.xhtml''"
    by (simp add: findCoverPath_def opf_cover_page_def doc_querySelector_def manifest_get_def)
  have "parseEpub_stages env_cover_page [] = Inl (Error ''corrupted zip'')"
    by (simp add: parseEpub_stages_def env_cover_page_def env_example_def read_string_def
        read_uint8array_def zip_example_def container_rootfile m s c lastIndexOf_def
        substring0_def manifest_get_href)
  then show ?thesis by (simp add: parseEpub_def)
qed

end
